theory Spec2Isabelle
  imports Main "HOL-Library.Signed_Division"
begin

section \<open>The battle server of PokeBat (src/PokeBat/server.go)\<close>

text \<open>
  A shallow embedding of the battle session engine: roster selection
  (\<open>handlePokemonSelection\<close>), damage (\<open>calculateDamage\<close>), the cyclic switch
  (\<open>switchPokemon\<close>), the battle loop (\<open>handleBattle\<close>) and the reward step
  (\<open>distributeExperience\<close>).

  Conventions of the embedding.
  \<^item> Go's \<open>int\<close> is \<open>int\<close>; the quotient \<open>/\<close> and the remainder \<open>%\<close> of Go truncate
    towards zero and are \<open>sdiv\<close> and \<open>smod\<close>.  The statistics and the experience come
    from the catalogue as they are, so where they enter a sum or a difference (the damage
    formula, the arithmetic of the experience) the wrap-around of the 64-bit \<open>int\<close> is
    written out with \<open>wrap64\<close>.  The active index, the turn and the loop counter stay
    small, and the damage taken from the hit points lies between 0 and \<open>2 ^ 63 - 1\<close>.
  \<^item> A pointer to a player is a value passed in and returned updated.
  \<^item> A connection is the list of the messages written to it and a flag saying whether
    it has been closed.  What the server reads from a connection is an input of the
    model, one item for each read.
  \<^item> Each call of \<open>rand.Intn\<close> is an input of the model.
  \<^item> An index outside a slice, and a remainder by zero, make the Go program panic;
    the model returns \<open>Panicked\<close> there.
\<close>

subsection \<open>Data\<close>

text \<open>
  The struct \<open>Pokemon\<close>.  Its field \<open>ElementalEffects\<close> (a map to floats) is never
  read or written by the server and is left out.
\<close>

record Pokemon =
  Name :: string
  HP :: int
  Attack :: int
  Defense :: int
  SpecialAttack :: int
  SpecialDefense :: int
  Speed :: int
  Experience :: int
  IsFainted :: bool

text \<open>
  Every text the server sends with \<open>sendJSON\<close>, one constructor for each call, carrying
  the arguments of its format string in their order.
\<close>

datatype message =
    InvalidChoice                         \<comment> \<open>Invalid or already selected Pokemon choice. ...\<close>
  | YouChose string int                   \<comment> \<open>You chose %s as your Pokemon #%d.\<close>
  | SelectedAll                           \<comment> \<open>You have selected all your Pokemon.\<close>
  | BattleWillBegin                       \<comment> \<open>Both players have selected ... will begin now!\<close>
  | YourPokemon string int                \<comment> \<open>Your Pokemon: %s (HP: %d)\<close>
  | OpponentPokemon string int            \<comment> \<open>Opponent Pokemon: %s (HP: %d)\<close>
  | YourTurn                              \<comment> \<open>It's your turn!\<close>
  | WaitingForOpponent                    \<comment> \<open>Waiting for opponent's move\<close>
  | InvalidActionFormat                   \<comment> \<open>Invalid action format. Please try again.\<close>
  | YouDealt int string int               \<comment> \<open>You dealt %d damage to %s. Remaining HP: %d\<close>
  | DealtToYour string int string int     \<comment> \<open>%s dealt %d damage to your %s. Remaining HP: %d\<close>
  | FaintedMsg string                     \<comment> \<open>%s fainted!\<close>
  | YouWin                                \<comment> \<open>You win!\<close>
  | YouLose                               \<comment> \<open>You lose!\<close>
  | SwitchedTo string                     \<comment> \<open>Switched to %s.\<close>
  | YouSurrendered                        \<comment> \<open>You surrendered! Game over.\<close>
  | OpponentSurrendered                   \<comment> \<open>Your opponent surrendered! You win!\<close>
  | NoExperienceGained                    \<comment> \<open>No experience gained as the losing team has ...\<close>
  | GainedExperience string int int int   \<comment> \<open>%s gained %d experience. Total experience: %d -> %d.\<close>
  | EachGained int                        \<comment> \<open>Each of your Pokemon gained %d experience.\<close>

record Conn =
  sent :: "message list"
  closed :: bool

text \<open>The struct \<open>Player\<close>; its fields \<open>Name\<close> and \<open>IsFainted\<close> are renamed, the
  names being taken by the fields of \<open>Pokemon\<close>.\<close>

record Player =
  PlayerName :: string
  Pokemons :: "Pokemon list"
  Active :: int
  Conn :: Conn
  PlayerIsFainted :: bool

record GameState =
  Player1 :: Player
  Player2 :: Player
  Turn :: int
  Player1Done :: bool
  Player2Done :: bool

text \<open>How a run of a function ends: it returned, it is blocked in a read with no input
  left, or the program panicked.\<close>

datatype 'a outcome = Returned 'a | Blocked 'a | Panicked

subsection \<open>Helpers of the runtime\<close>

text \<open>\<open>sendJSON\<close>: the message is written to the connection; on a closed connection
  the write fails, which the server only prints.\<close>

definition sendJSON :: "Conn \<Rightarrow> message \<Rightarrow> Conn" where
  "sendJSON conn m = (if closed conn then conn else conn\<lparr>sent := sent conn @ [m]\<rparr>)"

definition send :: "Player \<Rightarrow> message \<Rightarrow> Player" where
  "send p m = p\<lparr>Conn := sendJSON (Conn p) m\<rparr>"

definition Close :: "Player \<Rightarrow> Player" where
  "Close p = p\<lparr>Conn := (Conn p)\<lparr>closed := True\<rparr>\<rparr>"

text \<open>Indexing a slice: \<open>None\<close> is the panic of an index out of range.\<close>

definition index :: "'a list \<Rightarrow> int \<Rightarrow> 'a option" where
  "index xs i = (if 0 \<le> i \<and> i < int (length xs) then Some (xs ! nat i) else None)"

definition len :: "'a list \<Rightarrow> int" where
  "len xs = int (length xs)"

text \<open>The wrap-around of a sum or a difference of Go's \<open>int\<close>, on a 64-bit platform: the
  result is the value congruent modulo \<open>2 ^ 64\<close> that lies from \<open>- 2 ^ 63\<close> up to
  \<open>2 ^ 63 - 1\<close>.\<close>

definition wrap64 :: "int \<Rightarrow> int" where
  "wrap64 x = (x + 2 ^ 63) mod 2 ^ 64 - 2 ^ 63"

subsection \<open>calculateDamage\<close>

text \<open>Lines 140-155.  The last argument is the value of \<open>rand.Intn(10)\<close>.  The difference
  and the sum of line 150 wrap; the quotient by 2 cannot leave the range.\<close>

definition calculateDamage :: "Pokemon \<Rightarrow> Pokemon \<Rightarrow> bool \<Rightarrow> int \<Rightarrow> int" where
  "calculateDamage attacker defender isSpecial r =
     (let attackStat = (if isSpecial then SpecialAttack attacker else Attack attacker);
          defenseStat = (if isSpecial then SpecialDefense defender else Defense defender);
          damage = wrap64 (wrap64 (attackStat - defenseStat sdiv 2) + r)
      in if damage < 0 then 0 else damage)"

subsection \<open>switchPokemon\<close>

text \<open>Lines 158-160.  \<open>None\<close> is the panic of the remainder by zero, on an empty roster.\<close>

definition switchPokemon :: "Player \<Rightarrow> Player option" where
  "switchPokemon player =
     (if len (Pokemons player) = 0 then None
      else Some (player\<lparr>Active := (Active player + 1) smod len (Pokemons player)\<rparr>))"

subsection \<open>distributeExperience\<close>

text \<open>Lines 289-322.  The sum over the losing roster, lines 291-294.\<close>

definition totalExp :: "Pokemon list \<Rightarrow> int" where
  "totalExp ps = foldl (\<lambda>t pkmn. wrap64 (t + Experience pkmn)) 0 ps"

text \<open>The first loop over the winning roster, lines 304-306.\<close>

definition addShare :: "int \<Rightarrow> Pokemon list \<Rightarrow> Pokemon list" where
  "addShare expShare ps =
     map (\<lambda>p. p\<lparr>Experience := wrap64 (Experience p + expShare)\<rparr>) ps"

text \<open>The second loop over the winning roster, lines 308-319: it adds the share again and reports,
  on the winner's connection, the values around this second addition.\<close>

fun addAndReport :: "int \<Rightarrow> Conn \<Rightarrow> Pokemon list \<Rightarrow> Pokemon list \<times> Conn" where
  "addAndReport expShare conn [] = ([], conn)"
| "addAndReport expShare conn (p # ps) =
     (let beforeExp = Experience p;
          p' = p\<lparr>Experience := wrap64 (Experience p + expShare)\<rparr>;
          afterExp = Experience p';
          conn' = sendJSON conn (GainedExperience (Name p') expShare beforeExp afterExp);
          (ps', conn'') = addAndReport expShare conn' ps
      in (p' # ps', conn''))"

text \<open>The result is the winning player; the losing player is only read.\<close>

definition distributeExperience :: "Player \<Rightarrow> Player \<Rightarrow> Player" where
  "distributeExperience winningPlayer losingPlayer =
     (let total = totalExp (Pokemons losingPlayer)
      in if total = 0 then send winningPlayer NoExperienceGained
         else
           let expShare = total sdiv 3;
               w1 = winningPlayer\<lparr>Pokemons := addShare expShare (Pokemons winningPlayer)\<rparr>;
               (ps2, conn2) = addAndReport expShare (Conn w1) (Pokemons w1);
               w2 = w1\<lparr>Pokemons := ps2, Conn := conn2\<rparr>
           in send w2 (EachGained expShare))"

subsection \<open>handleBattle\<close>

text \<open>
  What one pass of the loop takes from outside: the result of reading the action of the
  turn owner (\<open>Conn.Read\<close>, then \<open>json.Unmarshal\<close> of the trimmed text, then the field
  \<open>Action\<close>), and the two random numbers an attack draws.
\<close>

datatype action_input =
    ReadError              \<comment> \<open>\<open>Read\<close> returned an error\<close>
  | UnmarshalError         \<comment> \<open>\<open>json.Unmarshal\<close> returned an error\<close>
  | Decoded string         \<comment> \<open>the value of \<open>actionRequest.Action\<close>\<close>

record turn_input =
  received :: action_input
  specialRoll :: int       \<comment> \<open>\<open>rand.Intn(2)\<close>\<close>
  damageRoll :: int        \<comment> \<open>\<open>rand.Intn(10)\<close>\<close>

datatype 'a step = Continue 'a | Return 'a | Panic

text \<open>The loop that looks for a combatant that has not fainted, lines 250-256.\<close>

fun allFainted :: "Pokemon list \<Rightarrow> bool" where
  "allFainted [] = True"
| "allFainted (pkmn # ps) = (if \<not> IsFainted pkmn then False else allFainted ps)"

text \<open>The subtraction of the damage from the hit points, with the floor at 0, lines 229-232.\<close>

definition applyDamage :: "Pokemon \<Rightarrow> int \<Rightarrow> Pokemon" where
  "applyDamage d damage =
     (let d1 = d\<lparr>HP := HP d - damage\<rparr>
      in if HP d1 < 0 then d1\<lparr>HP := 0\<rparr> else d1)"

text \<open>An assignment to \<open>player.Pokemons[player.Active]\<close>, the index being in range.\<close>

definition setActive :: "Player \<Rightarrow> Pokemon \<Rightarrow> Player" where
  "setActive player pkmn = player\<lparr>Pokemons := (Pokemons player)[nat (Active player) := pkmn]\<rparr>"

text \<open>The case \<open>attack\<close>, lines 225-268, on the turn owner and the opponent; \<open>roll2\<close>
  and \<open>roll10\<close> are the values of \<open>rand.Intn(2)\<close> and \<open>rand.Intn(10)\<close>.\<close>

definition attack :: "Player \<Rightarrow> Player \<Rightarrow> int \<Rightarrow> int \<Rightarrow> (Player \<times> Player) step" where
  "attack currentPlayer opponent roll2 roll10 =
     (let isSpecial = (roll2 = 0) in
      case index (Pokemons currentPlayer) (Active currentPlayer) of
        None \<Rightarrow> Panic
      | Some a \<Rightarrow>
      (case index (Pokemons opponent) (Active opponent) of
        None \<Rightarrow> Panic
      | Some d \<Rightarrow>
          let damage = calculateDamage a d isSpecial roll10;
              d2 = applyDamage d damage;
              opp1 = setActive opponent d2;
              cur1 = send currentPlayer (YouDealt damage (Name d2) (HP d2));
              opp2 = send opp1 (DealtToYour (Name a) damage (Name d2) (HP d2))
          in if HP d2 = 0 then
               let d3 = d2\<lparr>IsFainted := True\<rparr>;
                   opp3 = setActive opp2 d3;
                   opp4 = send opp3 (FaintedMsg (Name d3))
               in if allFainted (Pokemons opp4) then
                    let cur2 = send cur1 YouWin;
                        opp5 = send opp4 YouLose
                    in Return (distributeExperience cur2 opp5, opp5)
                  else (case switchPokemon opp4 of
                          None \<Rightarrow> Panic
                        | Some opp5 \<Rightarrow> Continue (cur1, opp5))
             else Continue (cur1, opp2)))"

text \<open>The case \<open>switch\<close>, lines 270-273.\<close>

definition switch :: "Player \<Rightarrow> Player \<Rightarrow> (Player \<times> Player) step" where
  "switch currentPlayer opponent =
     (case switchPokemon currentPlayer of
        None \<Rightarrow> Panic
      | Some cur1 \<Rightarrow>
          (case index (Pokemons cur1) (Active cur1) of
             None \<Rightarrow> Panic
           | Some p \<Rightarrow> Continue (send cur1 (SwitchedTo (Name p)), opponent)))"

text \<open>The case \<open>surrender\<close>, lines 275-280.\<close>

definition surrender :: "Player \<Rightarrow> Player \<Rightarrow> (Player \<times> Player) step" where
  "surrender currentPlayer opponent =
     (let cur1 = send currentPlayer YouSurrendered;
          opp1 = send opponent OpponentSurrendered
      in Return (cur1, distributeExperience opp1 cur1))"

text \<open>The \<open>switch\<close> statement on the action, lines 224-283; it has no default case.\<close>

definition resolve :: "Player \<Rightarrow> Player \<Rightarrow> string \<Rightarrow> int \<Rightarrow> int \<Rightarrow> (Player \<times> Player) step" where
  "resolve currentPlayer opponent action roll2 roll10 =
     (if action = ''attack'' then attack currentPlayer opponent roll2 roll10
      else if action = ''switch'' then switch currentPlayer opponent
      else if action = ''surrender'' then surrender currentPlayer opponent
      else Continue (currentPlayer, opponent))"

text \<open>The two pointers \<open>currentPlayer\<close> and \<open>opponent\<close> into the game state, lines
  186-193: reading through them, and writing through them.\<close>

definition players :: "GameState \<Rightarrow> Player \<times> Player" where
  "players gameState =
     (if Turn gameState = 1 then (Player1 gameState, Player2 gameState)
      else (Player2 gameState, Player1 gameState))"

definition store :: "GameState \<Rightarrow> Player \<times> Player \<Rightarrow> GameState" where
  "store gameState cp =
     (if Turn gameState = 1 then gameState\<lparr>Player1 := fst cp, Player2 := snd cp\<rparr>
      else gameState\<lparr>Player2 := fst cp, Player1 := snd cp\<rparr>)"

text \<open>The notices at the head of the loop body, before the read, lines 196-197.\<close>

definition notify :: "GameState \<Rightarrow> GameState" where
  "notify gameState =
     (let (currentPlayer, opponent) = players gameState
      in store gameState (send currentPlayer YourTurn, send opponent WaitingForOpponent))"

text \<open>One pass of the loop body, lines 186-285.\<close>

definition turn :: "GameState \<Rightarrow> turn_input \<Rightarrow> GameState step" where
  "turn gameState inp =
     (let g = notify gameState;
          (currentPlayer, opponent) = players g
      in case received inp of
           ReadError \<Rightarrow> Return g
         | UnmarshalError \<Rightarrow> Return (store g (send currentPlayer InvalidActionFormat, opponent))
         | Decoded action \<Rightarrow>
             (case resolve currentPlayer opponent action (specialRoll inp) (damageRoll inp) of
                Panic \<Rightarrow> Panic
              | Return cp \<Rightarrow> Return (store g cp)
              | Continue cp \<Rightarrow> Continue ((store g cp)\<lparr>Turn := 3 - Turn g\<rparr>)))"

text \<open>The loop of lines 185-286: it runs until a pass returns; with no input left it stays
  blocked in the read, the notices of that pass already sent.\<close>

fun battleLoop :: "GameState \<Rightarrow> turn_input list \<Rightarrow> GameState outcome" where
  "battleLoop gameState [] = Blocked (notify gameState)"
| "battleLoop gameState (inp # inps) =
     (case turn gameState inp of
        Panic \<Rightarrow> Panicked
      | Return g \<Rightarrow> Returned g
      | Continue g \<Rightarrow> battleLoop g inps)"

text \<open>The announcements and the choice of the first turn owner, lines 167-183; \<open>tie\<close> is
  the value of \<open>rand.Intn(2)\<close>, used when the speeds are equal.\<close>

definition announce :: "GameState \<Rightarrow> int \<Rightarrow> GameState option" where
  "announce gameState tie =
     (case index (Pokemons (Player1 gameState)) (Active (Player1 gameState)) of
        None \<Rightarrow> None
      | Some a1 \<Rightarrow>
      (case index (Pokemons (Player2 gameState)) (Active (Player2 gameState)) of
        None \<Rightarrow> None
      | Some a2 \<Rightarrow>
          let p1 = send (Player1 gameState) (YourPokemon (Name a1) (HP a1));
              p2 = send (Player2 gameState) (OpponentPokemon (Name a1) (HP a1));
              p2' = send p2 (YourPokemon (Name a2) (HP a2));
              p1' = send p1 (OpponentPokemon (Name a2) (HP a2));
              player1Speed = Speed a1;
              player2Speed = Speed a2
          in Some (gameState\<lparr>Player1 := p1', Player2 := p2',
                     Turn := (if player1Speed > player2Speed then 1
                              else if player2Speed > player1Speed then 2
                              else tie + 1)\<rparr>)))"

text \<open>The deferred calls of \<open>Close\<close>, lines 163-164, run when the function returns.\<close>

definition closeBoth :: "GameState \<Rightarrow> GameState" where
  "closeBoth g = g\<lparr>Player1 := Close (Player1 g), Player2 := Close (Player2 g)\<rparr>"

definition handleBattle :: "GameState \<Rightarrow> int \<Rightarrow> turn_input list \<Rightarrow> GameState outcome" where
  "handleBattle gameState tie inps =
     (case announce gameState tie of
        None \<Rightarrow> Panicked
      | Some g \<Rightarrow>
          (case battleLoop g inps of
             Returned g' \<Rightarrow> Returned (closeBoth g')
           | Blocked g' \<Rightarrow> Blocked g'
           | Panicked \<Rightarrow> Panicked))"

subsection \<open>handlePokemonSelection\<close>

text \<open>What one call of \<open>decoder.Decode\<close> gives: an error, or the field \<open>Choice\<close>.\<close>

datatype choice_input = DecodeError | Choice int

text \<open>The map \<open>selectedIndexes\<close>; a key that is absent reads as \<open>false\<close>.\<close>

definition lookup :: "(int \<rightharpoonup> bool) \<Rightarrow> int \<Rightarrow> bool" where
  "lookup m k = (case m k of None \<Rightarrow> False | Some b \<Rightarrow> b)"

text \<open>The condition under which a selection is refused, line 107.\<close>

fun refused :: "Pokemon list \<Rightarrow> (int \<rightharpoonup> bool) \<Rightarrow> choice_input \<Rightarrow> bool" where
  "refused pokedex selectedIndexes DecodeError = True"
| "refused pokedex selectedIndexes (Choice c) =
     (c < 0 \<or> c \<ge> len pokedex \<or> lookup selectedIndexes c)"

fun theChoice :: "choice_input \<Rightarrow> int" where
  "theChoice DecodeError = 0"
| "theChoice (Choice c) = c"

text \<open>The loop \<open>for i := 0; i < 3; i++\<close> of lines 105-120, from the value \<open>i\<close> on; a refused selection
  decrements \<open>i\<close> and continues, so that the increment gives the same \<open>i\<close> again.\<close>

fun selectionLoop ::
  "Pokemon list \<Rightarrow> int \<Rightarrow> Player \<Rightarrow> (int \<rightharpoonup> bool) \<Rightarrow> choice_input list
     \<Rightarrow> (Player \<times> (int \<rightharpoonup> bool)) outcome" where
  "selectionLoop pokedex i player selectedIndexes inps =
     (if i < 3 then
        (case inps of
           [] \<Rightarrow> Blocked (player, selectedIndexes)
         | c # rest \<Rightarrow>
             if refused pokedex selectedIndexes c then
               selectionLoop pokedex ((i - 1) + 1) (send player InvalidChoice) selectedIndexes rest
             else
               let player1 = player\<lparr>Pokemons := Pokemons player @ [pokedex ! nat (theChoice c)]\<rparr>;
                   selected1 = selectedIndexes(theChoice c \<mapsto> True)
               in (case index (Pokemons player1) i of
                     None \<Rightarrow> Panicked
                   | Some p \<Rightarrow>
                       selectionLoop pokedex (i + 1) (send player1 (YouChose (Name p) (i + 1)))
                         selected1 rest))
      else Returned (player, selectedIndexes))"

text \<open>The pointer \<open>player\<close> is \<open>&gameState.Player1\<close> or \<open>&gameState.Player2\<close>.\<close>

datatype who = First | Second

definition getPlayer :: "who \<Rightarrow> GameState \<Rightarrow> Player" where
  "getPlayer w g = (case w of First \<Rightarrow> Player1 g | Second \<Rightarrow> Player2 g)"

definition setPlayer :: "who \<Rightarrow> Player \<Rightarrow> GameState \<Rightarrow> GameState" where
  "setPlayer w p g = (case w of First \<Rightarrow> g\<lparr>Player1 := p\<rparr> | Second \<Rightarrow> g\<lparr>Player2 := p\<rparr>)"

definition handlePokemonSelection ::
  "who \<Rightarrow> Pokemon list \<Rightarrow> GameState \<Rightarrow> choice_input list \<Rightarrow> GameState outcome" where
  "handlePokemonSelection w pokedex gameState inps =
     (let player0 = (getPlayer w gameState)\<lparr>Pokemons := []\<rparr>
      in case selectionLoop pokedex 0 player0 Map.empty inps of
           Panicked \<Rightarrow> Panicked
         | Blocked (p, sel) \<Rightarrow> Blocked (setPlayer w p gameState)
         | Returned (p, sel) \<Rightarrow>
             let g1 = setPlayer w (send p SelectedAll) gameState;
                 g2 = (case w of First \<Rightarrow> g1\<lparr>Player1Done := True\<rparr>
                               | Second \<Rightarrow> g1\<lparr>Player2Done := True\<rparr>)
             in if Player1Done g2 \<and> Player2Done g2 then
                  Returned (g2\<lparr>Player1 := send (Player1 g2) BattleWillBegin,
                               Player2 := send (Player2 g2) BattleWillBegin\<rparr>)
                else Returned g2)"

subsection \<open>The session set up by \<open>main\<close>\<close>

text \<open>The game state \<open>main\<close> builds, lines 364-368: the fields it does not name have
  their zero values.  The two connections are fresh.  The exchange of the names
  (\<open>handlePlayerName\<close>) touches no field that the battle reads and is left out.\<close>

definition newConn :: Conn where
  "newConn = \<lparr>sent = [], closed = False\<rparr>"

definition initialGameState :: "Pokemon list \<Rightarrow> Pokemon list \<Rightarrow> GameState" where
  "initialGameState pokedex1 pokedex2 =
     \<lparr>Player1 = \<lparr>PlayerName = ''Player 1'', Pokemons = pokedex1, Active = 0,
                  Conn = newConn, PlayerIsFainted = False\<rparr>,
      Player2 = \<lparr>PlayerName = ''Player 2'', Pokemons = pokedex2, Active = 0,
                  Conn = newConn, PlayerIsFainted = False\<rparr>,
      Turn = 1, Player1Done = False, Player2Done = False\<rparr>"

text \<open>Lines 383-389 of \<open>main\<close>: the two selections, then the battle.\<close>

definition selections ::
  "Pokemon list \<Rightarrow> Pokemon list \<Rightarrow> choice_input list \<Rightarrow> choice_input list \<Rightarrow> GameState outcome" where
  "selections pokedex1 pokedex2 inps1 inps2 =
     (case handlePokemonSelection First pokedex1 (initialGameState pokedex1 pokedex2) inps1 of
        Returned g \<Rightarrow> handlePokemonSelection Second pokedex2 g inps2
      | r \<Rightarrow> r)"

definition session ::
  "Pokemon list \<Rightarrow> Pokemon list \<Rightarrow> choice_input list \<Rightarrow> choice_input list
     \<Rightarrow> int \<Rightarrow> turn_input list \<Rightarrow> GameState outcome" where
  "session pokedex1 pokedex2 inps1 inps2 tie inps =
     (case selections pokedex1 pokedex2 inps1 inps2 of
        Returned g \<Rightarrow> handleBattle g tie inps
      | r \<Rightarrow> r)"

subsection \<open>Example data\<close>

definition combatant :: "string \<Rightarrow> int \<Rightarrow> int \<Rightarrow> int \<Rightarrow> int \<Rightarrow> int \<Rightarrow> Pokemon" where
  "combatant n hp atk dfn spd ex =
     \<lparr>Name = n, HP = hp, Attack = atk, Defense = dfn, SpecialAttack = atk,
      SpecialDefense = dfn, Speed = spd, Experience = ex, IsFainted = False\<rparr>"

definition playerWith :: "Pokemon list \<Rightarrow> Player" where
  "playerWith ps =
     \<lparr>PlayerName = ''Player'', Pokemons = ps, Active = 0, Conn = newConn,
      PlayerIsFainted = False\<rparr>"

text \<open>Scenario E: a winning roster without experience, a losing roster whose experience
  sums to 300.\<close>

definition winnerE :: Player where
  "winnerE = playerWith [combatant ''A'' 100 50 20 10 0, combatant ''B'' 100 50 20 10 0,
                         combatant ''C'' 100 50 20 10 0]"

definition loserE :: Player where
  "loserE = playerWith [combatant ''X'' 0 50 20 10 100, combatant ''Y'' 0 50 20 10 100,
                        combatant ''Z'' 0 50 20 10 100]"

definition loserZero :: Player where
  "loserZero = playerWith [combatant ''X'' 0 50 20 10 0, combatant ''Y'' 0 50 20 10 0,
                           combatant ''Z'' 0 50 20 10 0]"

text \<open>Two catalogues, a game state ready for the battle with the second player to move,
  and inputs of the battle loop.\<close>

definition dexA :: "Pokemon list" where
  "dexA = [combatant ''A0'' 10 50 20 5 0, combatant ''A1'' 10 50 20 5 0,
           combatant ''A2'' 10 50 20 5 0]"

definition dexB :: "Pokemon list" where
  "dexB = [combatant ''B0'' 100 50 20 10 0, combatant ''B1'' 100 50 20 10 0,
           combatant ''B2'' 100 50 20 10 0]"

definition arena :: GameState where
  "arena = \<lparr>Player1 = playerWith dexA, Player2 = playerWith dexB, Turn = 2,
            Player1Done = True, Player2Done = True\<rparr>"

definition act :: "string \<Rightarrow> turn_input" where
  "act a = \<lparr>received = Decoded a, specialRoll = 1, damageRoll = 5\<rparr>"

definition garbled :: turn_input where
  "garbled = \<lparr>received = UnmarshalError, specialRoll = 0, damageRoll = 0\<rparr>"


definition retriedChoices :: "choice_input list" where
  "retriedChoices = [Choice 1, Choice 1, Choice 7, DecodeError, Choice 2, Choice (- 1), Choice 0]"

subsection \<open>Notions used in the statements\<close>

text \<open>The range of Go's \<open>int\<close> on a 64-bit platform: a value in it is not changed by
  \<open>wrap64\<close>.\<close>

definition int64 :: "int \<Rightarrow> bool" where
  "int64 x = (- (2 ^ 63) \<le> x \<and> x < 2 ^ 63)"


text \<open>The active index of a player is an index of its roster; a game state in the battle
  loop has the turn at 1 or 2 and both active indices in range.\<close>

definition valid :: "Player \<Rightarrow> bool" where
  "valid p = (0 \<le> Active p \<and> Active p < len (Pokemons p))"

definition wellFormed :: "GameState \<Rightarrow> bool" where
  "wellFormed g = ((Turn g = 1 \<or> Turn g = 2) \<and> valid (Player1 g) \<and> valid (Player2 g))"

text \<open>The hit points of the roster of a player lie between 0 and the bounds given, slot
  by slot.\<close>

definition hpWithin :: "int list \<Rightarrow> Player \<Rightarrow> bool" where
  "hpWithin bounds p = list_all2 (\<lambda>m h. 0 \<le> h \<and> h \<le> m) bounds (map HP (Pokemons p))"

text \<open>The passes of the battle loop over a list of inputs, when every one of them goes
  on to the next pass.\<close>

fun turns :: "GameState \<Rightarrow> turn_input list \<Rightarrow> GameState option" where
  "turns g [] = Some g"
| "turns g (inp # inps) = (case turn g inp of Continue g' \<Rightarrow> turns g' inps | _ \<Rightarrow> None)"

text \<open>
  The accepted selections as the specification of the roster builder describes them: the
  requests are taken in their order; a request is accepted when its index is within the
  catalogue and differs from every index accepted before; a request that is not accepted
  leaves the list as it is; the list is complete with three indices.
\<close>

fun picks :: "Pokemon list \<Rightarrow> int list \<Rightarrow> choice_input list \<Rightarrow> int list" where
  "picks pokedex acc [] = acc"
| "picks pokedex acc (c # cs) =
     (if 3 \<le> length acc then acc
      else (case c of
              DecodeError \<Rightarrow> picks pokedex acc cs
            | Choice k \<Rightarrow>
                if 0 \<le> k \<and> k < len pokedex \<and> k \<notin> set acc then picks pokedex (acc @ [k]) cs
                else picks pokedex acc cs))"

section \<open>Properties\<close>

subsection \<open>Wrap-around\<close>

lemma wrap64_int64: "int64 (wrap64 x)"
proof -
  have "0 \<le> (x + 2 ^ 63) mod 2 ^ 64" "(x + 2 ^ 63) mod 2 ^ 64 < (2 ^ 64 :: int)"
    by simp_all
  then show ?thesis by (simp add: wrap64_def int64_def)
qed

lemma wrap64_id: "int64 x \<Longrightarrow> wrap64 x = x"
proof -
  assume "int64 x"
  then have "0 \<le> x + 2 ^ 63" "x + 2 ^ 63 < 2 ^ 64" by (simp_all add: int64_def)
  then have "(x + 2 ^ 63) mod 2 ^ 64 = x + 2 ^ 63" by (rule mod_pos_pos_trivial)
  then show ?thesis by (simp add: wrap64_def)
qed

lemma wrap64_add_left: "wrap64 (wrap64 a + b) = wrap64 (a + b)"
proof -
  have "wrap64 (wrap64 a + b) = ((a + 2 ^ 63) mod 2 ^ 64 + b) mod 2 ^ 64 - 2 ^ 63"
    by (simp add: wrap64_def)
  also have "((a + 2 ^ 63) mod 2 ^ 64 + b) mod 2 ^ 64 = (a + 2 ^ 63 + b) mod 2 ^ 64"
    by (rule mod_add_left_eq)
  also have "a + 2 ^ 63 + b = a + b + 2 ^ 63"
    by simp
  finally show ?thesis by (simp add: wrap64_def)
qed

subsection \<open>Reward distribution\<close>

text \<open>The loop of lines 291-294 computes the sum of the experience, wrapped once.\<close>

lemma totalExp_sum_list: "totalExp ps = wrap64 (sum_list (map Experience ps))"
proof -
  have "foldl (\<lambda>t pkmn. wrap64 (t + Experience pkmn)) (wrap64 s) ps =
        wrap64 (s + sum_list (map Experience ps))" for s
  proof (induction ps arbitrary: s)
    case Nil
    show ?case by simp
  next
    case (Cons p ps)
    have "foldl (\<lambda>t pkmn. wrap64 (t + Experience pkmn)) (wrap64 s) (p # ps) =
          foldl (\<lambda>t pkmn. wrap64 (t + Experience pkmn)) (wrap64 (s + Experience p)) ps"
      by (simp add: wrap64_add_left)
    also have "\<dots> = wrap64 (s + Experience p + sum_list (map Experience ps))"
      by (rule Cons.IH)
    finally show ?case by (simp add: add.assoc)
  qed
  from this [of 0] show ?thesis by (simp add: totalExp_def wrap64_def)
qed

lemma addAndReport_roster:
  "fst (addAndReport e c ps) = map (\<lambda>p. p\<lparr>Experience := wrap64 (Experience p + e)\<rparr>) ps"
  by (induction ps arbitrary: c) (simp_all add: Let_def case_prod_beta)

text \<open>When the losing total is not zero the two loops of \<open>distributeExperience\<close> add the
  share twice to every combatant of the winning roster.\<close>

lemma distributeExperience_twice:
  assumes "totalExp (Pokemons l) \<noteq> 0"
  shows "map Experience (Pokemons (distributeExperience w l)) =
         map (\<lambda>p. wrap64 (wrap64 (Experience p + totalExp (Pokemons l) sdiv 3)
                              + totalExp (Pokemons l) sdiv 3)) (Pokemons w)"
  using assms
    addAndReport_roster [of "totalExp (Pokemons l) sdiv 3" "Conn w"
      "addShare (totalExp (Pokemons l) sdiv 3) (Pokemons w)"]
  by (simp add: distributeExperience_def Let_def send_def addShare_def case_prod_beta)

text \<open>
  Claim C1.  The claim: when the experience of the losing roster sums to a total that is
  not zero, the share \<open>total / 3\<close> is added exactly once to each combatant of the winning
  roster; with a total of 300 each gains 100.  The code adds the share in a first loop
  and again in the reporting loop: in scenario E the losing total is 300, the three
  winning combatants start at 0, and each ends at 200, not at 100.
\<close>

theorem distributeExperience_scenario_E:
  "totalExp (Pokemons loserE) = 300 \<and>
   map Experience (Pokemons winnerE) = [0, 0, 0] \<and>
   map Experience (Pokemons (distributeExperience winnerE loserE)) = [200, 200, 200]"
  by (simp add: distributeExperience_def winnerE_def loserE_def playerWith_def combatant_def
      totalExp_def addShare_def send_def sendJSON_def newConn_def signed_divide_int_def Let_def
      wrap64_def)

text \<open>
  Claim C10.  If the experience of the losing roster sums to 0, the reward step sends the
  notice that no experience was gained to the winner and does nothing else: the winning
  player is the same but for that message on the connection (roster, experience and
  active index unchanged), and the message is the last one sent when the connection is
  open.
\<close>

theorem distributeExperience_zero:
  assumes "sum_list (map Experience (Pokemons losingPlayer)) = 0"
  shows "distributeExperience winningPlayer losingPlayer =
           winningPlayer\<lparr>Conn := sendJSON (Conn winningPlayer) NoExperienceGained\<rparr> \<and>
         Pokemons (distributeExperience winningPlayer losingPlayer) = Pokemons winningPlayer \<and>
         Active (distributeExperience winningPlayer losingPlayer) = Active winningPlayer \<and>
         (\<not> closed (Conn winningPlayer) \<longrightarrow>
            sent (Conn (distributeExperience winningPlayer losingPlayer)) =
              sent (Conn winningPlayer) @ [NoExperienceGained])"
proof -
  have "totalExp (Pokemons losingPlayer) = 0"
    using assms by (simp add: totalExp_sum_list wrap64_def)
  then show ?thesis
    by (simp add: distributeExperience_def send_def sendJSON_def)
qed

theorem distributeExperience_zero_witness:
  "sum_list (map Experience (Pokemons loserZero)) = 0 \<and>
   Pokemons (distributeExperience winnerE loserZero) = Pokemons winnerE \<and>
   sent (Conn (distributeExperience winnerE loserZero)) = [NoExperienceGained]"
proof -
  have z: "sum_list (map Experience (Pokemons loserZero)) = 0"
    by (simp add: loserZero_def playerWith_def combatant_def)
  have o: "\<not> closed (Conn winnerE)" "sent (Conn winnerE) = []"
    by (simp_all add: winnerE_def playerWith_def newConn_def)
  show ?thesis
    using z o distributeExperience_zero [OF z, of winnerE] by (simp add: sendJSON_def)
qed

subsection \<open>Damage\<close>

text \<open>Whatever the statistics, the damage is the wrapped value of the formula, floored at
  0; it is never negative and it is in the range of \<open>int\<close>.\<close>

lemma calculateDamage_wrapped:
  assumes "A = (if isSpecial then SpecialAttack attacker else Attack attacker)"
    and "D = (if isSpecial then SpecialDefense defender else Defense defender)"
  shows "calculateDamage attacker defender isSpecial r =
           max 0 (wrap64 (wrap64 (A - D sdiv 2) + r))"
    and "int64 (calculateDamage attacker defender isSpecial r)"
proof -
  show e: "calculateDamage attacker defender isSpecial r =
           max 0 (wrap64 (wrap64 (A - D sdiv 2) + r))"
    using assms by (simp add: calculateDamage_def Let_def max_def)
  have "int64 (wrap64 (wrap64 (A - D sdiv 2) + r))" by (rule wrap64_int64)
  then show "int64 (calculateDamage attacker defender isSpecial r)"
    unfolding e by (simp add: int64_def max_def)
qed

text \<open>
  Claim C5.  The claim: for an attack with attack statistic \<open>A\<close>, defence statistic \<open>D\<close>
  (the physical pair, or the special pair when the attack is special) and a random number
  \<open>r\<close> with \<open>0 \<le> r < 10\<close>, the damage is \<open>max 0 (A - D / 2 + r)\<close> with the truncating
  quotient, and lies between \<open>max 0 (A - D / 2)\<close> and that value plus 9.  It fails where
  line 150 wraps: with Attack \<open>2 ^ 63 - 1\<close>, Defense 0, the roll 1 and the physical pair
  the sum wraps to a negative value and the damage is 0, below \<open>max 0 (A - D / 2)\<close>.

  What holds instead: the same statement for the statistics with which neither
  \<open>A - D / 2\<close> nor \<open>A - D / 2 + r\<close> leaves the range of the 64-bit \<open>int\<close>.  With
  Attack 50, Defense 20, the roll 5 and the physical pair the damage is 45.
\<close>

theorem calculateDamage_range:
  assumes "0 \<le> r" and "r < 10"
    and "A = (if isSpecial then SpecialAttack attacker else Attack attacker)"
    and "D = (if isSpecial then SpecialDefense defender else Defense defender)"
    and "int64 (A - D sdiv 2)" and "int64 (A - D sdiv 2 + r)"
  shows "calculateDamage attacker defender isSpecial r = max 0 (A - D sdiv 2 + r) \<and>
         max 0 (A - D sdiv 2) \<le> calculateDamage attacker defender isSpecial r \<and>
         calculateDamage attacker defender isSpecial r \<le> max 0 (A - D sdiv 2) + 9 \<and>
         (Attack attacker = 50 \<and> Defense defender = 20 \<and> r = 5 \<and> \<not> isSpecial
            \<longrightarrow> calculateDamage attacker defender isSpecial r = 45)"
proof -
  have "wrap64 (wrap64 (A - D sdiv 2) + r) = A - D sdiv 2 + r"
    using assms(5,6) by (simp add: wrap64_id)
  then have e: "calculateDamage attacker defender isSpecial r = max 0 (A - D sdiv 2 + r)"
    using calculateDamage_wrapped(1) [OF assms(3,4), of r] by simp
  have s: "Attack attacker = 50 \<and> Defense defender = 20 \<and> r = 5 \<and> \<not> isSpecial
            \<longrightarrow> A - D sdiv 2 + r = 45"
    using assms(3,4) by (simp add: signed_divide_int_def)
  show ?thesis using e s assms(1,2) by (auto simp: max_def)
qed

theorem calculateDamage_range_witness:
  "calculateDamage (combatant ''A'' 100 50 20 10 0) (combatant ''B'' 100 50 20 10 0) False 5 = 45 \<and>
   max 0 (50 - 20 sdiv 2) \<le> (45 :: int) \<and> (45 :: int) \<le> max 0 (50 - 20 sdiv 2) + 9"
proof -
  have r: "int64 (50 - 20 sdiv 2)" "int64 (50 - 20 sdiv 2 + 5)"
    by (simp_all add: int64_def signed_divide_int_def)
  show ?thesis
    using calculateDamage_range [of 5 50 False "combatant ''A'' 100 50 20 10 0" 20
      "combatant ''B'' 100 50 20 10 0"] r
    by (simp add: combatant_def)
qed

theorem calculateDamage_overflow_counterexample:
  "calculateDamage (combatant ''A'' 100 9223372036854775807 0 10 0)
     (combatant ''B'' 100 50 0 10 0) False 1 = 0 \<and>
   max 0 (Attack (combatant ''A'' 100 9223372036854775807 0 10 0)
          - Defense (combatant ''B'' 100 50 0 10 0) sdiv 2) = 9223372036854775807 \<and>
   max 0 (Attack (combatant ''A'' 100 9223372036854775807 0 10 0)
          - Defense (combatant ''B'' 100 50 0 10 0) sdiv 2 + 1) = 9223372036854775808"
  by (simp add: calculateDamage_def combatant_def wrap64_def Let_def signed_divide_int_def)

text \<open>With statistics of magnitude up to \<open>2 ^ 62\<close> no intermediate value of the damage
  formula leaves the range, so the condition of the theorem above holds for them.\<close>

lemma sdiv_2_bounds: "\<bar>(x::int) sdiv 2\<bar> \<le> \<bar>x\<bar>"
  by (simp add: signed_divide_int_def abs_mult abs_sgn_eq) arith

lemma calculateDamage_int64:
  assumes "\<bar>A\<bar> \<le> 2 ^ 62 - 10" "\<bar>D\<bar> \<le> 2 ^ 62" "0 \<le> r" "r < 10"
  shows "int64 (D sdiv 2) \<and> int64 (A - D sdiv 2) \<and> int64 (A - D sdiv 2 + r)"
proof -
  have "\<bar>D sdiv 2\<bar> \<le> 2 ^ 62" using sdiv_2_bounds [of D] assms(2) by linarith
  then show ?thesis using assms by (auto simp: int64_def)
qed

subsection \<open>The battle loop\<close>

lemma send_fields [simp]:
  "Pokemons (send p m) = Pokemons p" "Active (send p m) = Active p"
  "PlayerName (send p m) = PlayerName p" "closed (Conn (send p m)) = closed (Conn p)"
  by (simp_all add: send_def sendJSON_def)



lemma players_notify:
  "players (notify g) = (send (fst (players g)) YourTurn, send (snd (players g)) WaitingForOpponent)"
  by (simp add: notify_def players_def store_def case_prod_beta)

lemma store_notify: "store (notify g) cp = store g cp"
  by (simp add: notify_def players_def store_def case_prod_beta)

lemma Turn_notify [simp]: "Turn (notify g) = Turn g"
  by (simp add: notify_def players_def store_def case_prod_beta)

lemma Turn_store [simp]: "Turn (store g cp) = Turn g"
  by (simp add: store_def)

lemma turn_Decoded:
  assumes "received inp = Decoded action"
  shows "turn g inp =
     (case resolve (send (fst (players g)) YourTurn) (send (snd (players g)) WaitingForOpponent)
             action (specialRoll inp) (damageRoll inp) of
        Panic \<Rightarrow> Panic
      | Return cp \<Rightarrow> Return (store g cp)
      | Continue cp \<Rightarrow> Continue ((store g cp)\<lparr>Turn := 3 - Turn g\<rparr>))"
  using assms by (simp add: turn_def Let_def players_notify store_notify split: step.splits)

lemma turn_UnmarshalError:
  assumes "received inp = UnmarshalError"
  shows "turn g inp = Return (store g (send (send (fst (players g)) YourTurn) InvalidActionFormat,
                                       send (snd (players g)) WaitingForOpponent))"
  using assms by (simp add: turn_def Let_def players_notify store_notify)




lemma setActive_fields [simp]:
  "Active (setActive p x) = Active p" "Conn (setActive p x) = Conn p"
  "Pokemons (setActive p x) = (Pokemons p)[nat (Active p) := x]"
  by (simp_all add: setActive_def)

lemma index_Some_iff:
  "index xs i = Some x \<longleftrightarrow> 0 \<le> i \<and> i < int (length xs) \<and> x = xs ! nat i"
  by (auto simp: index_def)

lemma smod_nonneg: "0 \<le> k \<Longrightarrow> 0 < l \<Longrightarrow> k smod l = k mod (l :: int)"
  by (cases "k = 0") (simp_all add: signed_modulo_int_def)

lemma switchPokemon_Some:
  assumes "0 \<le> Active p" "Active p < len (Pokemons p)"
  shows "switchPokemon p = Some (p\<lparr>Active := (Active p + 1) mod len (Pokemons p)\<rparr>)"
  using assms by (simp add: switchPokemon_def smod_nonneg)

lemma applyDamage_HP: "HP (applyDamage d dmg) = max 0 (HP d - dmg)"
  by (simp add: applyDamage_def Let_def max_def)

lemma applyDamage_other [simp]:
  "IsFainted (applyDamage d dmg) = IsFainted d" "Name (applyDamage d dmg) = Name d"
  "Experience (applyDamage d dmg) = Experience d"
  by (simp_all add: applyDamage_def Let_def)

lemma calculateDamage_nonneg: "0 \<le> calculateDamage a d sp r"
  by (simp add: calculateDamage_def Let_def)

text \<open>The three ways an attack ends; \<open>roster\<close> is the roster of the defender after
  the hit and the mark of the faint.\<close>

lemma attack_cases:
  assumes a: "index (Pokemons cur) (Active cur) = Some a"
    and d: "index (Pokemons opp) (Active opp) = Some d"
    and dmg: "dmg = calculateDamage a d (r2 = 0) r10"
    and d2: "d2 = applyDamage d dmg"
    and ro: "roster = (Pokemons opp)[nat (Active opp) := d2\<lparr>IsFainted := True\<rparr>]"
    and c1: "cur1 = send cur (YouDealt dmg (Name d2) (HP d2))"
    and o2: "opp2 = send (setActive opp d2) (DealtToYour (Name a) dmg (Name d2) (HP d2))"
    and o4: "opp4 = send (setActive opp2 (d2\<lparr>IsFainted := True\<rparr>)) (FaintedMsg (Name d2))"
  shows "HP d2 \<noteq> 0 \<Longrightarrow> attack cur opp r2 r10 = Continue (cur1, opp2)"
    and "HP d2 = 0 \<Longrightarrow> allFainted roster \<Longrightarrow>
           attack cur opp r2 r10 =
             Return (distributeExperience (send cur1 YouWin) (send opp4 YouLose), send opp4 YouLose)"
    and "HP d2 = 0 \<Longrightarrow> \<not> allFainted roster \<Longrightarrow>
           attack cur opp r2 r10 =
             Continue (cur1, opp4\<lparr>Active := (Active opp + 1) mod len (Pokemons opp)\<rparr>)"
proof -
  have r: "Pokemons opp4 = roster" using o4 o2 ro by simp
  have act: "Active opp4 = Active opp" using o4 o2 by simp
  have wf: "0 \<le> Active opp" "Active opp < len (Pokemons opp)"
    using d by (simp_all add: index_Some_iff len_def)
  have sw: "switchPokemon opp4 = Some (opp4\<lparr>Active := (Active opp + 1) mod len (Pokemons opp)\<rparr>)"
    using switchPokemon_Some [of opp4] wf r act ro by (simp add: len_def)
  show "HP d2 \<noteq> 0 \<Longrightarrow> attack cur opp r2 r10 = Continue (cur1, opp2)"
    using a d dmg d2 c1 o2 by (simp add: attack_def Let_def)
  show "HP d2 = 0 \<Longrightarrow> allFainted roster \<Longrightarrow>
           attack cur opp r2 r10 =
             Return (distributeExperience (send cur1 YouWin) (send opp4 YouLose), send opp4 YouLose)"
    using a d dmg d2 c1 o2 o4 r by (simp add: attack_def Let_def)
  show "HP d2 = 0 \<Longrightarrow> \<not> allFainted roster \<Longrightarrow>
           attack cur opp r2 r10 =
             Continue (cur1, opp4\<lparr>Active := (Active opp + 1) mod len (Pokemons opp)\<rparr>)"
    using a d dmg d2 c1 o2 o4 r sw by (simp add: attack_def Let_def)
qed


lemma battleLoop_append:
  "turns g pre = Some g' \<Longrightarrow> battleLoop g (pre @ rest) = battleLoop g' rest"
  by (induction pre arbitrary: g) (auto split: step.splits)

lemma switch_Continue:
  assumes "0 \<le> Active cur" "Active cur < len (Pokemons cur)"
  shows "switch cur opp =
     Continue (send (cur\<lparr>Active := (Active cur + 1) mod len (Pokemons cur)\<rparr>)
                 (SwitchedTo (Name (Pokemons cur ! nat ((Active cur + 1) mod len (Pokemons cur))))),
               opp)"
proof -
  have n: "0 < len (Pokemons cur)" using assms by simp
  have "0 \<le> (Active cur + 1) mod len (Pokemons cur)"
       "(Active cur + 1) mod len (Pokemons cur) < len (Pokemons cur)"
    using n by simp_all
  then show ?thesis
    using assms by (simp add: switch_def switchPokemon_Some index_def len_def)
qed

lemma resolve_other:
  "action \<noteq> ''attack'' \<Longrightarrow> action \<noteq> ''switch'' \<Longrightarrow> action \<noteq> ''surrender'' \<Longrightarrow>
   resolve cur opp action r2 r10 = Continue (cur, opp)"
  by (simp add: resolve_def)

text \<open>
  Claim C4.  An action that decodes but is none of \<open>attack\<close>, \<open>switch\<close> and \<open>surrender\<close>
  resolves nothing: the pass goes on to the next one (the match does not end), the rosters
  and the active indices of both players are unchanged, each player is what it was but for
  the notice of the turn sent before the read (no message about an outcome is sent), and
  the turn passes to the other player.
\<close>

theorem unknown_action_skipped:
  assumes "received inp = Decoded action"
    and "action \<noteq> ''attack''" and "action \<noteq> ''switch''" and "action \<noteq> ''surrender''"
  shows "\<exists>g'. turn g inp = Continue g' \<and>
           Turn g' = 3 - Turn g \<and> Turn g' \<noteq> Turn g \<and>
           Player1 g' = send (Player1 g) (if Turn g = 1 then YourTurn else WaitingForOpponent) \<and>
           Player2 g' = send (Player2 g) (if Turn g = 1 then WaitingForOpponent else YourTurn) \<and>
           Pokemons (Player1 g') = Pokemons (Player1 g) \<and> Active (Player1 g') = Active (Player1 g) \<and>
           Pokemons (Player2 g') = Pokemons (Player2 g) \<and> Active (Player2 g') = Active (Player2 g)"
  using assms
  by (simp add: turn_Decoded resolve_other players_def store_def)




lemma distributeExperience_Active [simp]: "Active (distributeExperience w l) = Active w"
  by (simp add: distributeExperience_def Let_def case_prod_beta send_def)

lemma distributeExperience_length [simp]:
  "length (Pokemons (distributeExperience w l)) = length (Pokemons w)"
  using addAndReport_roster [of "totalExp (Pokemons l) sdiv 3" "Conn w" "addShare (totalExp (Pokemons l) sdiv 3) (Pokemons w)"]
  by (simp add: distributeExperience_def Let_def case_prod_beta send_def addShare_def)

lemma closeBoth_fields [simp]:
  "closed (Conn (Player1 (closeBoth g)))" "closed (Conn (Player2 (closeBoth g)))"
  "Pokemons (Player1 (closeBoth g)) = Pokemons (Player1 g)"
  "Pokemons (Player2 (closeBoth g)) = Pokemons (Player2 g)"
  "sent (Conn (Player1 (closeBoth g))) = sent (Conn (Player1 g))"
  "sent (Conn (Player2 (closeBoth g))) = sent (Conn (Player2 g))"
  "Turn (closeBoth g) = Turn g"
  by (simp_all add: closeBoth_def Close_def)

text \<open>
  Claim C3.  A turn action of the turn owner that cannot be parsed (\<open>json.Unmarshal\<close>
  returns an error: a malformed message, or an action tag that does not decode as a
  string) ends the match at once, whatever passes went before and whatever input follows:
  \<open>handleBattle\<close> returns, both connections are closed, no winner is declared and no
  reward is distributed.  The rosters of both players are those before the pass, and the
  messages of the pass are the two notices of the turn and the notice of the invalid
  format, sent to the turn owner.
\<close>

theorem malformed_action_aborts:
  assumes inp: "received inp = UnmarshalError"
    and start: "announce g0 tie = Some g1"
    and pre: "turns g1 pre = Some g"
  shows "\<exists>g'. handleBattle g0 tie (pre @ inp # rest) = Returned g' \<and>
           closed (Conn (Player1 g')) \<and> closed (Conn (Player2 g')) \<and>
           Pokemons (Player1 g') = Pokemons (Player1 g) \<and>
           Pokemons (Player2 g') = Pokemons (Player2 g) \<and>
           Conn (Player1 g') = (if Turn g = 1
              then sendJSON (sendJSON (Conn (Player1 g)) YourTurn) InvalidActionFormat
              else sendJSON (Conn (Player1 g)) WaitingForOpponent)\<lparr>closed := True\<rparr> \<and>
           Conn (Player2 g') = (if Turn g = 1
              then sendJSON (Conn (Player2 g)) WaitingForOpponent
              else sendJSON (sendJSON (Conn (Player2 g)) YourTurn) InvalidActionFormat)\<lparr>closed := True\<rparr>"
proof -
  have t: "turn g inp = Return (store g (send (send (fst (players g)) YourTurn) InvalidActionFormat,
                                       send (snd (players g)) WaitingForOpponent))"
    using inp by (rule turn_UnmarshalError)
  have "battleLoop g1 (pre @ inp # rest) = battleLoop g (inp # rest)"
    using pre by (rule battleLoop_append)
  then have "handleBattle g0 tie (pre @ inp # rest) =
      Returned (closeBoth (store g (send (send (fst (players g)) YourTurn) InvalidActionFormat,
                                       send (snd (players g)) WaitingForOpponent)))"
    using t start by (simp add: handleBattle_def)
  then show ?thesis
    by (simp add: players_def store_def closeBoth_def Close_def send_def)
qed

text \<open>
  Claim C6.  For an attack that resolves (the pass goes on, or the match ends with it), the
  damage applied is never negative, and the hit points of the defender's active combatant
  after it are \<open>max 0 (HP - damage)\<close>: at least 0, and at most \<open>maxHP\<close> when the hit
  points before were between 0 and \<open>maxHP\<close>.
\<close>

theorem attack_hp_bounds:
  assumes a: "index (Pokemons cur) (Active cur) = Some a"
    and d: "index (Pokemons opp) (Active opp) = Some d"
    and hp: "0 \<le> HP d" "HP d \<le> maxHP"
    and dmg: "damage = calculateDamage a d (r2 = 0) r10"
    and res: "attack cur opp r2 r10 = Continue (cur', opp') \<or> attack cur opp r2 r10 = Return (cur', opp')"
  shows "0 \<le> damage \<and>
         (\<exists>d'. index (Pokemons opp') (Active opp) = Some d' \<and>
               HP d' = max 0 (HP d - damage) \<and> 0 \<le> HP d' \<and> HP d' \<le> maxHP)"
proof -
  define d2 where "d2 = applyDamage d damage"
  define roster where "roster = (Pokemons opp)[nat (Active opp) := d2\<lparr>IsFainted := True\<rparr>]"
  note cases = attack_cases [OF a d dmg d2_def roster_def refl refl refl]
  have wf: "0 \<le> Active opp" "nat (Active opp) < length (Pokemons opp)"
    using d by (auto simp: index_Some_iff)
  have nn: "0 \<le> damage" using dmg by (simp add: calculateDamage_nonneg)
  have h2: "HP d2 = max 0 (HP d - damage)" by (simp add: d2_def applyDamage_HP)
  have "Pokemons opp' = (Pokemons opp)[nat (Active opp) := d2] \<or> Pokemons opp' = roster"
    using res cases by (cases "HP d2 = 0"; cases "allFainted roster") (auto simp: roster_def)
  then have "\<exists>d'. index (Pokemons opp') (Active opp) = Some d' \<and> HP d' = HP d2"
    using wf by (auto simp: index_def roster_def)
  then show ?thesis using nn h2 hp by auto
qed

lemma surrender_Return:
  "surrender cur opp =
     Return (send cur YouSurrendered, distributeExperience (send opp OpponentSurrendered) (send cur YouSurrendered))"
  by (simp add: surrender_def Let_def)











lemma battleLoop_Return: "turn g inp = Return g' \<Longrightarrow> battleLoop g (inp # rest) = Returned g'"
  by simp

lemma battleLoop_Continue: "turn g inp = Continue g' \<Longrightarrow> battleLoop g (inp # rest) = battleLoop g' rest"
  by simp




subsection \<open>Invariants of the battle loop\<close>

text \<open>From a well-formed state no pass panics, and a pass that goes on leaves a
  well-formed state.\<close>

lemma valid_send [simp]: "valid (send p m) = valid p"
  by (simp add: valid_def)

lemma resolve_valid:
  assumes "valid cur" "valid opp"
  shows "resolve cur opp action r2 r10 \<noteq> Panic"
    and "resolve cur opp action r2 r10 = Continue (cur', opp') \<Longrightarrow> valid cur' \<and> valid opp'"
proof -
  have wfc: "0 \<le> Active cur" "Active cur < len (Pokemons cur)"
    and wfo: "0 \<le> Active opp" "Active opp < len (Pokemons opp)"
    using assms by (simp_all add: valid_def)
  obtain a where a: "index (Pokemons cur) (Active cur) = Some a"
    using wfc by (simp add: index_def len_def)
  obtain d where d: "index (Pokemons opp) (Active opp) = Some d"
    using wfo by (simp add: index_def len_def)
  define d2 where "d2 = applyDamage d (calculateDamage a d (r2 = 0) r10)"
  define roster where "roster = (Pokemons opp)[nat (Active opp) := d2\<lparr>IsFainted := True\<rparr>]"
  note cases = attack_cases [OF a d refl d2_def roster_def refl refl refl]
  have "attack cur opp r2 r10 \<noteq> Panic"
    using cases by (cases "HP d2 = 0"; cases "allFainted roster") simp_all
  then show "resolve cur opp action r2 r10 \<noteq> Panic"
    using switch_Continue [OF wfc, of opp]
    by (simp add: resolve_def surrender_Return)
  have n: "0 < len (Pokemons opp)" "0 < len (Pokemons cur)" using wfo wfc by simp_all
  have rng: "0 \<le> (Active opp + 1) mod len (Pokemons opp)"
    "(Active opp + 1) mod len (Pokemons opp) < len (Pokemons opp)"
    "0 \<le> (Active cur + 1) mod len (Pokemons cur)"
    "(Active cur + 1) mod len (Pokemons cur) < len (Pokemons cur)"
    using n by simp_all
  have att: "valid cur' \<and> valid opp'" if "attack cur opp r2 r10 = Continue (cur', opp')"
    using that cases assms rng
    by (cases "HP d2 = 0"; cases "allFainted roster") (auto simp: valid_def len_def)
  have sw: "valid cur' \<and> valid opp'" if "switch cur opp = Continue (cur', opp')"
    using that switch_Continue [OF wfc, of opp] assms rng by (auto simp: valid_def len_def)
  show "valid cur' \<and> valid opp'" if "resolve cur opp action r2 r10 = Continue (cur', opp')"
    using that att sw assms by (auto simp: resolve_def surrender_Return split: if_splits)
qed

lemma valid_players: "wellFormed g \<Longrightarrow> valid (fst (players g)) \<and> valid (snd (players g))"
  by (simp add: wellFormed_def players_def)

lemma wellFormed_store:
  assumes "Turn g = 1 \<or> Turn g = 2" "valid (fst cp)" "valid (snd cp)"
  shows "wellFormed ((store g cp)\<lparr>Turn := 3 - Turn g\<rparr>)"
  using assms by (auto simp: wellFormed_def store_def)

lemma turn_wellFormed:
  assumes "wellFormed g"
  shows "turn g inp \<noteq> Panic" and "turn g inp = Continue g' \<Longrightarrow> wellFormed g'"
proof -
  have v: "valid (send (fst (players g)) YourTurn)" "valid (send (snd (players g)) WaitingForOpponent)"
    using valid_players [OF assms] by simp_all
  have t: "Turn g = 1 \<or> Turn g = 2" using assms by (simp add: wellFormed_def)
  show "turn g inp \<noteq> Panic"
  proof (cases "received inp")
    case (Decoded action)
    then show ?thesis
      using resolve_valid(1) [OF v, of action "specialRoll inp" "damageRoll inp"]
      by (simp add: turn_Decoded split: step.splits)
  qed (simp_all add: turn_def Let_def case_prod_beta)
  show "wellFormed g'" if c: "turn g inp = Continue g'"
  proof (cases "received inp")
    case (Decoded action)
    from c obtain cp where
      r: "resolve (send (fst (players g)) YourTurn) (send (snd (players g)) WaitingForOpponent)
            action (specialRoll inp) (damageRoll inp) = Continue cp"
      and g': "g' = (store g cp)\<lparr>Turn := 3 - Turn g\<rparr>"
      by (auto simp: turn_Decoded [OF Decoded] split: step.splits)
    have "valid (fst cp) \<and> valid (snd cp)"
      using resolve_valid(2) [OF v, of action "specialRoll inp" "damageRoll inp" "fst cp" "snd cp"] r
      by simp
    then show ?thesis using g' wellFormed_store [OF t] by simp
  qed (use c in \<open>simp_all add: turn_def Let_def case_prod_beta\<close>)
qed

lemma battleLoop_not_Panicked: "wellFormed g \<Longrightarrow> battleLoop g inps \<noteq> Panicked"
proof (induction inps arbitrary: g)
  case Nil
  then show ?case by simp
next
  case (Cons inp inps)
  then show ?case
    using turn_wellFormed [OF Cons.prems, of inp]
    by (cases "turn g inp") auto
qed

lemma turns_wellFormed: "wellFormed g \<Longrightarrow> turns g inps = Some g' \<Longrightarrow> wellFormed g'"
proof (induction inps arbitrary: g)
  case Nil
  then show ?case by simp
next
  case (Cons inp inps)
  then show ?case
    using turn_wellFormed(2) [OF Cons.prems(1), of inp]
    by (cases "turn g inp") auto
qed

lemma announce_wellFormed:
  assumes "announce g tie = Some g'" "tie = 0 \<or> tie = 1"
  shows "wellFormed g'"
  using assms
  by (auto simp: announce_def Let_def wellFormed_def valid_def index_Some_iff len_def
        split: option.splits if_splits)

text \<open>The hit points of every combatant stay between 0 and their bound through the whole
  battle.\<close>

lemma hpWithin_send [simp]: "hpWithin b (send p m) = hpWithin b p"
  by (simp add: hpWithin_def)

lemma hpWithin_setActive:
  assumes "hpWithin b p" "index (Pokemons p) (Active p) = Some d" "0 \<le> HP x" "HP x \<le> HP d"
  shows "hpWithin b (setActive p x)"
proof -
  have i: "nat (Active p) < length (Pokemons p)" and d: "d = Pokemons p ! nat (Active p)"
    using assms(2) by (auto simp: index_Some_iff)
  have l: "length b = length (Pokemons p)"
    using assms(1) by (auto simp: hpWithin_def dest: list_all2_lengthD)
  have "0 \<le> HP x \<and> HP x \<le> b ! nat (Active p)"
    using assms i d by (auto simp: hpWithin_def list_all2_conv_all_nth)
  then have "list_all2 (\<lambda>m h. 0 \<le> h \<and> h \<le> m) (b[nat (Active p) := b ! nat (Active p)])
               ((map HP (Pokemons p))[nat (Active p) := HP x])"
    using assms(1) unfolding hpWithin_def by (intro list_all2_update_cong) simp_all
  then show ?thesis by (simp add: hpWithin_def map_update)
qed

lemma distributeExperience_HP [simp]:
  "map HP (Pokemons (distributeExperience w l)) = map HP (Pokemons w)"
  using addAndReport_roster [of "totalExp (Pokemons l) sdiv 3" "Conn w"
      "addShare (totalExp (Pokemons l) sdiv 3) (Pokemons w)"]
  by (simp add: distributeExperience_def Let_def case_prod_beta send_def addShare_def comp_def)

lemma hpWithin_distribute [simp]: "hpWithin b (distributeExperience w l) = hpWithin b w"
  by (simp add: hpWithin_def)

lemma hpWithin_Active [simp]: "hpWithin b (p\<lparr>Active := k\<rparr>) = hpWithin b p"
  by (simp add: hpWithin_def)

lemma attack_hpWithin:
  assumes c: "hpWithin bc cur" and o: "hpWithin bo opp"
    and res: "attack cur opp r2 r10 = Continue (cur', opp') \<or> attack cur opp r2 r10 = Return (cur', opp')"
  shows "hpWithin bc cur' \<and> hpWithin bo opp'"
proof -
  from res obtain a where a: "index (Pokemons cur) (Active cur) = Some a"
    by (auto simp: attack_def split: option.splits)
  from res a obtain d where d: "index (Pokemons opp) (Active opp) = Some d"
    by (auto simp: attack_def split: option.splits)
  define dmg where "dmg = calculateDamage a d (r2 = 0) r10"
  define d2 where "d2 = applyDamage d dmg"
  define roster where "roster = (Pokemons opp)[nat (Active opp) := d2\<lparr>IsFainted := True\<rparr>]"
  define opp2 where "opp2 = send (setActive opp d2) (DealtToYour (Name a) dmg (Name d2) (HP d2))"
  define opp4 where "opp4 = send (setActive opp2 (d2\<lparr>IsFainted := True\<rparr>)) (FaintedMsg (Name d2))"
  note cases = attack_cases [OF a d dmg_def d2_def roster_def refl opp2_def opp4_def]
  have hd: "0 \<le> HP d"
    using o d by (auto simp: hpWithin_def list_all2_conv_all_nth index_Some_iff)
  have h2: "0 \<le> HP d2" "HP d2 \<le> HP d"
    using hd calculateDamage_nonneg [of a d "r2 = 0" r10]
    by (simp_all add: d2_def dmg_def applyDamage_HP)
  have o2: "hpWithin bo opp2"
    using hpWithin_setActive [OF o d h2] by (simp add: opp2_def)
  have i: "nat (Active opp) < length (Pokemons opp)"
    using d by (auto simp: index_Some_iff)
  have d': "index (Pokemons opp2) (Active opp2) = Some d2"
    using d i by (simp add: opp2_def index_Some_iff)
  have o4: "hpWithin bo opp4"
    using hpWithin_setActive [OF o2 d', of "d2\<lparr>IsFainted := True\<rparr>"] h2 by (simp add: opp4_def)
  show ?thesis
    using res cases c o2 o4
    by (cases "HP d2 = 0"; cases "allFainted roster") auto
qed

lemma resolve_hpWithin:
  assumes c: "hpWithin bc cur" and o: "hpWithin bo opp"
    and res: "resolve cur opp action r2 r10 = Continue (cur', opp') \<or>
              resolve cur opp action r2 r10 = Return (cur', opp')"
  shows "hpWithin bc cur' \<and> hpWithin bo opp'"
proof -
  consider (at) "action = ''attack''" | (sw) "action \<noteq> ''attack''" "action = ''switch''"
    | (su) "action \<noteq> ''attack''" "action \<noteq> ''switch''" "action = ''surrender''"
    | (ot) "action \<noteq> ''attack''" "action \<noteq> ''switch''" "action \<noteq> ''surrender''"
    by blast
  then show ?thesis
  proof cases
    case at
    then show ?thesis using attack_hpWithin [OF c o, of r2 r10 cur' opp'] res
      by (simp add: resolve_def)
  next
    case sw
    then show ?thesis using res c o
      by (auto simp: resolve_def switch_def switchPokemon_def split: option.splits if_splits)
  next
    case su
    then show ?thesis using res c o by (auto simp: resolve_def surrender_Return)
  next
    case ot
    then show ?thesis using res c o by (auto simp: resolve_other)
  qed
qed

lemma hpWithin_store:
  assumes "hpWithin (if Turn g = 1 then b1 else b2) c"
    and "hpWithin (if Turn g = 1 then b2 else b1) q"
  shows "hpWithin b1 (Player1 (store g (c, q))) \<and> hpWithin b2 (Player2 (store g (c, q)))"
  using assms by (cases "Turn g = 1") (simp_all add: store_def)

lemma notify_hpWithin:
  "hpWithin b1 (Player1 (notify g)) = hpWithin b1 (Player1 g)"
  "hpWithin b2 (Player2 (notify g)) = hpWithin b2 (Player2 g)"
  by (simp_all add: notify_def players_def store_def)

lemma turn_hpWithin:
  assumes h: "hpWithin b1 (Player1 g)" "hpWithin b2 (Player2 g)"
    and res: "turn g inp = Continue g' \<or> turn g inp = Return g'"
  shows "hpWithin b1 (Player1 g') \<and> hpWithin b2 (Player2 g')"
proof -
  have p: "hpWithin (if Turn g = 1 then b1 else b2) (send (fst (players g)) YourTurn)"
    "hpWithin (if Turn g = 1 then b2 else b1) (send (snd (players g)) WaitingForOpponent)"
    using h by (simp_all add: players_def)
  show ?thesis
  proof (cases "received inp")
    case ReadError
    then show ?thesis using res h
      by (auto simp: turn_def Let_def case_prod_beta notify_hpWithin)
  next
    case UnmarshalError
    have "hpWithin (if Turn g = 1 then b1 else b2)
            (send (send (fst (players g)) YourTurn) InvalidActionFormat)"
      "hpWithin (if Turn g = 1 then b2 else b1) (send (snd (players g)) WaitingForOpponent)"
      using p by simp_all
    from hpWithin_store [OF this] show ?thesis
      using res by (simp add: turn_UnmarshalError [OF UnmarshalError])
  next
    case (Decoded action)
    from res obtain c q where
      r: "resolve (send (fst (players g)) YourTurn) (send (snd (players g)) WaitingForOpponent)
            action (specialRoll inp) (damageRoll inp) = Continue (c, q) \<or>
          resolve (send (fst (players g)) YourTurn) (send (snd (players g)) WaitingForOpponent)
            action (specialRoll inp) (damageRoll inp) = Return (c, q)"
      and g': "g' = (store g (c, q))\<lparr>Turn := 3 - Turn g\<rparr> \<or> g' = store g (c, q)"
      by (auto simp: turn_Decoded [OF Decoded] split: step.splits)
    have "hpWithin (if Turn g = 1 then b1 else b2) c \<and>
          hpWithin (if Turn g = 1 then b2 else b1) q"
      using resolve_hpWithin [OF p r] .
    then show ?thesis using g' hpWithin_store [of g b1 b2 c q] by auto
  qed
qed

lemma battleLoop_hpWithin:
  assumes "hpWithin b1 (Player1 g)" "hpWithin b2 (Player2 g)"
    and "battleLoop g inps = Returned g' \<or> battleLoop g inps = Blocked g'"
  shows "hpWithin b1 (Player1 g') \<and> hpWithin b2 (Player2 g')"
  using assms
proof (induction inps arbitrary: g)
  case Nil
  then show ?case by (auto simp: notify_hpWithin)
next
  case (Cons inp inps)
  show ?case
  proof (cases "turn g inp")
    case (Continue g1)
    have "hpWithin b1 (Player1 g1) \<and> hpWithin b2 (Player2 g1)"
      using turn_hpWithin [OF Cons.prems(1,2), of inp g1] Continue by simp
    then show ?thesis using Cons.IH [of g1] Cons.prems(3) Continue by simp
  next
    case (Return g1)
    then show ?thesis using turn_hpWithin [OF Cons.prems(1,2), of inp g1] Cons.prems(3) by auto
  next
    case Panic
    then show ?thesis using Cons.prems(3) by simp
  qed
qed

subsection \<open>Roster selection\<close>

declare selectionLoop.simps [simp del]

lemma selectionLoop_done: "\<not> i < 3 \<Longrightarrow> selectionLoop pokedex i p sel inps = Returned (p, sel)"
  by (subst selectionLoop.simps) simp

lemma selectionLoop_blocked: "i < 3 \<Longrightarrow> selectionLoop pokedex i p sel [] = Blocked (p, sel)"
  by (subst selectionLoop.simps) simp

lemma selectionLoop_refused:
  "i < 3 \<Longrightarrow> refused pokedex sel c \<Longrightarrow>
   selectionLoop pokedex i p sel (c # rest) = selectionLoop pokedex i (send p InvalidChoice) sel rest"
  by (subst selectionLoop.simps) simp

lemma selectionLoop_accepted:
  "i < 3 \<Longrightarrow> \<not> refused pokedex sel c \<Longrightarrow>
   selectionLoop pokedex i p sel (c # rest) =
     (case index (Pokemons p @ [pokedex ! nat (theChoice c)]) i of
        None \<Rightarrow> Panicked
      | Some x \<Rightarrow>
          selectionLoop pokedex (i + 1)
            (send (p\<lparr>Pokemons := Pokemons p @ [pokedex ! nat (theChoice c)]\<rparr>) (YouChose (Name x) (i + 1)))
            (sel(theChoice c \<mapsto> True)) rest)"
  by (subst selectionLoop.simps) (simp add: Let_def)

lemma picks_props:
  assumes "distinct acc" "\<forall>k \<in> set acc. 0 \<le> k \<and> k < len pokedex" 
  shows "distinct (picks pokedex acc inps) \<and>
         (\<forall>k \<in> set (picks pokedex acc inps). 0 \<le> k \<and> k < len pokedex) \<and>
         (\<exists>ys. picks pokedex acc inps = acc @ ys)"
  using assms
proof (induction inps arbitrary: acc)
  case Nil
  then show ?case by simp
next
  case (Cons c cs)
  show ?case
  proof (cases "3 \<le> length acc")
    case True
    then show ?thesis using Cons.prems by simp
  next
    case False
    show ?thesis
    proof (cases c)
      case DecodeError
      then show ?thesis using False Cons.IH [OF Cons.prems] by auto
    next
      case (Choice k)
      show ?thesis
      proof (cases "0 \<le> k \<and> k < len pokedex \<and> k \<notin> set acc")
        case True
        have "distinct (acc @ [k])" "\<forall>j \<in> set (acc @ [k]). 0 \<le> j \<and> j < len pokedex"
          using True Cons.prems by auto
        from Cons.IH [OF this] show ?thesis using True False Choice by auto
      next
        case no: False
        then have "picks pokedex acc (c # cs) = picks pokedex acc cs"
          using False Choice by auto
        then show ?thesis using Cons.IH [OF Cons.prems] Choice by auto
      qed
    qed
  qed
qed

lemma selectionLoop_picks:
  assumes "i = int (length acc)" "Pokemons player = map (\<lambda>k. pokedex ! nat k) acc"
    and "\<forall>k. lookup sel k \<longleftrightarrow> k \<in> set acc" "length acc \<le> 3"
    and "selectionLoop pokedex i player sel inps = Returned (p', sel')"
  shows "Pokemons p' = map (\<lambda>k. pokedex ! nat k) (picks pokedex acc inps) \<and>
         length (picks pokedex acc inps) = 3 \<and> Active p' = Active player"
  using assms
proof (induction inps arbitrary: i acc player sel)
  case Nil
  then show ?case
    by (cases "i < 3") (auto simp: selectionLoop_done selectionLoop_blocked)
next
  case (Cons c cs)
  show ?case
  proof (cases "i < 3")
    case False
    then show ?thesis using Cons.prems by (auto simp: selectionLoop_done)
  next
    case True
    then have l3: "\<not> 3 \<le> length acc" using Cons.prems(1) by simp
    show ?thesis
    proof (cases "refused pokedex sel c")
      case r: True
      then have p: "picks pokedex acc (c # cs) = picks pokedex acc cs"
        using l3 Cons.prems(3) by (cases c) (auto simp: len_def)
      have "selectionLoop pokedex i (send player InvalidChoice) sel cs = Returned (p', sel')"
        using Cons.prems(5) True r by (simp add: selectionLoop_refused)
      from Cons.IH [OF Cons.prems(1) _ Cons.prems(3,4) this] Cons.prems(2)
      show ?thesis using p by simp
    next
      case nr: False
      then obtain k where k: "c = Choice k" "0 \<le> k" "k < len pokedex" "k \<notin> set acc"
        using Cons.prems(3) by (cases c) (auto simp: len_def)
      have p: "picks pokedex acc (c # cs) = picks pokedex (acc @ [k]) cs"
        using l3 k by simp
      have ix: "index (Pokemons player @ [pokedex ! nat k]) i = Some (pokedex ! nat k)"
        using Cons.prems(1,2) by (simp add: index_def nth_append)
      have run: "selectionLoop pokedex (i + 1)
            (send (player\<lparr>Pokemons := Pokemons player @ [pokedex ! nat k]\<rparr>)
               (YouChose (Name (pokedex ! nat k)) (i + 1)))
            (sel(k \<mapsto> True)) cs = Returned (p', sel')"
        using Cons.prems(5) True nr k(1) ix by (simp add: selectionLoop_accepted)
      have 1: "i + 1 = int (length (acc @ [k]))" using Cons.prems(1) by simp
      have 2: "Pokemons (send (player\<lparr>Pokemons := Pokemons player @ [pokedex ! nat k]\<rparr>)
               (YouChose (Name (pokedex ! nat k)) (i + 1))) = map (\<lambda>k. pokedex ! nat k) (acc @ [k])"
        using Cons.prems(2) by simp
      have 3: "\<forall>j. lookup (sel(k \<mapsto> True)) j \<longleftrightarrow> j \<in> set (acc @ [k])"
        using Cons.prems(3) by (auto simp: lookup_def)
      have 4: "length (acc @ [k]) \<le> 3" using l3 by simp
      from Cons.IH [OF 1 2 3 4 run] show ?thesis using p by simp
    qed
  qed
qed

lemma handlePokemonSelection_Returned:
  assumes "handlePokemonSelection w pokedex g inps = Returned g'"
  shows "\<exists>p sel. selectionLoop pokedex 0 ((getPlayer w g)\<lparr>Pokemons := []\<rparr>) Map.empty inps = Returned (p, sel) \<and>
           Pokemons (getPlayer w g') = Pokemons p \<and> Active (getPlayer w g') = Active p \<and>
           Pokemons (getPlayer (case w of First \<Rightarrow> Second | Second \<Rightarrow> First) g') =
             Pokemons (getPlayer (case w of First \<Rightarrow> Second | Second \<Rightarrow> First) g) \<and>
           Active (getPlayer (case w of First \<Rightarrow> Second | Second \<Rightarrow> First) g') =
             Active (getPlayer (case w of First \<Rightarrow> Second | Second \<Rightarrow> First) g)"
  using assms
  by (cases w)
     (auto simp: handlePokemonSelection_def Let_def getPlayer_def setPlayer_def
           split: outcome.splits prod.splits if_splits)

lemma handlePokemonSelection_picks:
  assumes "handlePokemonSelection w pokedex g inps = Returned g'"
  shows "Pokemons (getPlayer w g') = map (\<lambda>k. pokedex ! nat k) (picks pokedex [] inps) \<and>
        length (picks pokedex [] inps) = 3 \<and> Active (getPlayer w g') = Active (getPlayer w g) \<and>
        Pokemons (getPlayer (case w of First \<Rightarrow> Second | Second \<Rightarrow> First) g') =
             Pokemons (getPlayer (case w of First \<Rightarrow> Second | Second \<Rightarrow> First) g) \<and>
        Active (getPlayer (case w of First \<Rightarrow> Second | Second \<Rightarrow> First) g') =
             Active (getPlayer (case w of First \<Rightarrow> Second | Second \<Rightarrow> First) g)"
proof -
  from handlePokemonSelection_Returned [OF assms] obtain p sel where
    l: "selectionLoop pokedex 0 ((getPlayer w g)\<lparr>Pokemons := []\<rparr>) Map.empty inps = Returned (p, sel)"
    and e: "Pokemons (getPlayer w g') = Pokemons p" "Active (getPlayer w g') = Active p"
      "Pokemons (getPlayer (case w of First \<Rightarrow> Second | Second \<Rightarrow> First) g') =
           Pokemons (getPlayer (case w of First \<Rightarrow> Second | Second \<Rightarrow> First) g)"
      "Active (getPlayer (case w of First \<Rightarrow> Second | Second \<Rightarrow> First) g') =
           Active (getPlayer (case w of First \<Rightarrow> Second | Second \<Rightarrow> First) g)"
    by blast
  have "Pokemons p = map (\<lambda>k. pokedex ! nat k) (picks pokedex [] inps) \<and>
       length (picks pokedex [] inps) = 3 \<and> Active p = Active ((getPlayer w g)\<lparr>Pokemons := []\<rparr>)"
    by (rule selectionLoop_picks [OF _ _ _ _ l]) (simp_all add: lookup_def)
  then show ?thesis using e by simp
qed

lemma selections_picks:
  assumes r: "selections pokedex1 pokedex2 inps1 inps2 = Returned g'"
  shows "Active (Player1 g') = 0 \<and> Active (Player2 g') = 0 \<and>
      Pokemons (Player1 g') = map (\<lambda>k. pokedex1 ! nat k) (picks pokedex1 [] inps1) \<and>
      Pokemons (Player2 g') = map (\<lambda>k. pokedex2 ! nat k) (picks pokedex2 [] inps2) \<and>
      length (picks pokedex1 [] inps1) = 3 \<and> length (picks pokedex2 [] inps2) = 3"
proof -
  from r obtain g1 where
    a: "handlePokemonSelection First pokedex1 (initialGameState pokedex1 pokedex2) inps1 = Returned g1"
    and b: "handlePokemonSelection Second pokedex2 g1 inps2 = Returned g'"
    by (auto simp: selections_def split: outcome.splits)
  show ?thesis using handlePokemonSelection_picks [OF a] handlePokemonSelection_picks [OF b]
    by (simp add: getPlayer_def initialGameState_def)
qed

lemma selectionLoop_not_Panicked:
  "i = int (length (Pokemons player)) \<Longrightarrow> selectionLoop pokedex i player sel inps \<noteq> Panicked"
proof (induction inps arbitrary: i player sel)
  case Nil
  then show ?case by (cases "i < 3") (simp_all add: selectionLoop_done selectionLoop_blocked)
next
  case (Cons c cs)
  show ?case
  proof (cases "i < 3")
    case False
    then show ?thesis by (simp add: selectionLoop_done)
  next
    case True
    show ?thesis
    proof (cases "refused pokedex sel c")
      case r: True
      then show ?thesis using True Cons.IH [of i "send player InvalidChoice" sel] Cons.prems
        by (simp add: selectionLoop_refused)
    next
      case nr: False
      have ix: "index (Pokemons player @ [pokedex ! nat (theChoice c)]) i = Some (pokedex ! nat (theChoice c))"
        using Cons.prems by (simp add: index_def nth_append)
      have "selectionLoop pokedex i player sel (c # cs) =
            selectionLoop pokedex (i + 1)
              (send (player\<lparr>Pokemons := Pokemons player @ [pokedex ! nat (theChoice c)]\<rparr>)
                 (YouChose (Name (pokedex ! nat (theChoice c))) (i + 1)))
              (sel(theChoice c \<mapsto> True)) cs"
        using True nr ix by (simp add: selectionLoop_accepted)
      moreover have "selectionLoop pokedex (i + 1)
              (send (player\<lparr>Pokemons := Pokemons player @ [pokedex ! nat (theChoice c)]\<rparr>)
                 (YouChose (Name (pokedex ! nat (theChoice c))) (i + 1)))
              (sel(theChoice c \<mapsto> True)) cs \<noteq> Panicked"
        by (rule Cons.IH) (use Cons.prems in simp)
      ultimately show ?thesis by simp
    qed
  qed
qed

lemma handlePokemonSelection_not_Panicked:
  "handlePokemonSelection w pokedex g inps \<noteq> Panicked"
  using selectionLoop_not_Panicked [of 0 "(getPlayer w g)\<lparr>Pokemons := []\<rparr>" pokedex Map.empty inps]
  by (auto simp: handlePokemonSelection_def Let_def split: outcome.splits prod.splits)

lemma selectionLoop_returns:
  assumes "i = int (length acc)" "i = int (length (Pokemons player))"
    and "\<forall>k. lookup sel k \<longleftrightarrow> k \<in> set acc"
    and "length (picks pokedex acc inps) = 3"
  shows "\<exists>r. selectionLoop pokedex i player sel inps = Returned r"
  using assms
proof (induction inps arbitrary: i acc player sel)
  case Nil
  then show ?case by (simp add: selectionLoop_done)
next
  case (Cons c cs)
  show ?case
  proof (cases "i < 3")
    case False
    then show ?thesis by (simp add: selectionLoop_done)
  next
    case True
    then have l3: "\<not> 3 \<le> length acc" using Cons.prems(1) by simp
    show ?thesis
    proof (cases "refused pokedex sel c")
      case r: True
      then have p: "picks pokedex acc (c # cs) = picks pokedex acc cs"
        using l3 Cons.prems(3) by (cases c) (auto simp: len_def)
      have "\<exists>r. selectionLoop pokedex i (send player InvalidChoice) sel cs = Returned r"
        by (rule Cons.IH [OF Cons.prems(1) _ Cons.prems(3)]) (use Cons.prems p in simp_all)
      then show ?thesis using True r by (simp add: selectionLoop_refused)
    next
      case nr: False
      then obtain k where k: "c = Choice k" "0 \<le> k" "k < len pokedex" "k \<notin> set acc"
        using Cons.prems(3) by (cases c) (auto simp: len_def)
      have p: "picks pokedex acc (c # cs) = picks pokedex (acc @ [k]) cs"
        using l3 k by simp
      have ix: "index (Pokemons player @ [pokedex ! nat k]) i = Some (pokedex ! nat k)"
        using Cons.prems(2) by (simp add: index_def nth_append)
      have 3: "\<forall>j. lookup (sel(k \<mapsto> True)) j \<longleftrightarrow> j \<in> set (acc @ [k])"
        using Cons.prems(3) by (auto simp: lookup_def)
      have "\<exists>r. selectionLoop pokedex (i + 1)
            (send (player\<lparr>Pokemons := Pokemons player @ [pokedex ! nat k]\<rparr>)
               (YouChose (Name (pokedex ! nat k)) (i + 1)))
            (sel(k \<mapsto> True)) cs = Returned r"
        by (rule Cons.IH [OF _ _ 3]) (use Cons.prems p in simp_all)
      then show ?thesis using True nr k(1) ix by (simp add: selectionLoop_accepted)
    qed
  qed
qed

lemma handlePokemonSelection_returns:
  assumes "length (picks pokedex [] inps) = 3"
  shows "\<exists>g'. handlePokemonSelection w pokedex g inps = Returned g'"
proof -
  have "\<exists>r. selectionLoop pokedex 0 ((getPlayer w g)\<lparr>Pokemons := []\<rparr>) Map.empty inps = Returned r"
    by (rule selectionLoop_returns [of _ "[]"]) (use assms in \<open>simp_all add: lookup_def\<close>)
  then show ?thesis
    by (auto simp: handlePokemonSelection_def Let_def split: prod.splits)
qed

text \<open>
  Claim C9.  A selection whose index is outside the catalogue, or equal to an index
  accepted before for this player, is refused: the loop goes on with the same slot, the
  roster and the accepted indices unchanged, the player told of the refusal.  A run of the
  roster builder that completes leaves a roster of exactly three combatants, the catalogue
  entries at three distinct indices within the catalogue, in the order in which they were
  accepted (\<open>picks\<close>), and leaves the active index as it was; in the session set up by
  \<open>main\<close> the active index of both rosters is 0 when the selections are complete.
\<close>

theorem roster_selection:
  "(i < 3 \<and> refused pokedex sel c \<longrightarrow>
      selectionLoop pokedex i p sel (c # rest) =
        selectionLoop pokedex i (send p InvalidChoice) sel rest) \<and>
   (refused pokedex sel (Choice k) \<longleftrightarrow> k < 0 \<or> len pokedex \<le> k \<or> lookup sel k) \<and>
   (handlePokemonSelection w pokedex g inps = Returned g' \<longrightarrow>
      (\<exists>a b c. picks pokedex [] inps = [a, b, c] \<and> distinct [a, b, c] \<and>
               (\<forall>k \<in> {a, b, c}. 0 \<le> k \<and> k < len pokedex) \<and>
               Pokemons (getPlayer w g') = [pokedex ! nat a, pokedex ! nat b, pokedex ! nat c] \<and>
               Active (getPlayer w g') = Active (getPlayer w g))) \<and>
   (selections pokedex1 pokedex2 inps1 inps2 = Returned g' \<longrightarrow>
      Active (Player1 g') = 0 \<and> Active (Player2 g') = 0 \<and>
      Pokemons (Player1 g') = map (\<lambda>k. pokedex1 ! nat k) (picks pokedex1 [] inps1) \<and>
      Pokemons (Player2 g') = map (\<lambda>k. pokedex2 ! nat k) (picks pokedex2 [] inps2) \<and>
      length (picks pokedex1 [] inps1) = 3 \<and> length (picks pokedex2 [] inps2) = 3)"
proof -
  have 1: "i < 3 \<and> refused pokedex sel c \<longrightarrow>
      selectionLoop pokedex i p sel (c # rest) =
        selectionLoop pokedex i (send p InvalidChoice) sel rest"
    by (simp add: selectionLoop_refused)
  have 2: "refused pokedex sel (Choice k) \<longleftrightarrow> k < 0 \<or> len pokedex \<le> k \<or> lookup sel k"
    by auto
  have 3: "\<exists>a b c. picks pokedex [] inps = [a, b, c] \<and> distinct [a, b, c] \<and>
               (\<forall>k \<in> {a, b, c}. 0 \<le> k \<and> k < len pokedex) \<and>
               Pokemons (getPlayer w g') = [pokedex ! nat a, pokedex ! nat b, pokedex ! nat c] \<and>
               Active (getPlayer w g') = Active (getPlayer w g)"
    if r: "handlePokemonSelection w pokedex g inps = Returned g'"
  proof -
    note s = handlePokemonSelection_picks [OF r]
    from s obtain a b c where abc: "picks pokedex [] inps = [a, b, c]"
      by (auto simp: length_Suc_conv numeral_3_eq_3)
    have pr: "distinct (picks pokedex [] inps) \<and>
         (\<forall>k \<in> set (picks pokedex [] inps). 0 \<le> k \<and> k < len pokedex)"
      using picks_props [of "[]" pokedex inps] by simp
    show ?thesis using s pr abc by auto
  qed
  show ?thesis using 1 2 3 selections_picks by blast
qed

text \<open>The session of \<open>main\<close> never panics: the rosters have three combatants and the
  active indices stay in range.\<close>

lemma session_not_Panicked:
  assumes "tie = 0 \<or> tie = 1"
  shows "session pokedex1 pokedex2 inps1 inps2 tie inps \<noteq> Panicked"
proof (cases "selections pokedex1 pokedex2 inps1 inps2")
  case (Returned g)
  note s = selections_picks [OF Returned]
  have v: "valid (Player1 g)" "valid (Player2 g)"
    using s by (simp_all add: valid_def len_def)
  then obtain g1 where a: "announce g tie = Some g1"
    by (auto simp: announce_def Let_def valid_def index_def len_def)
  have "battleLoop g1 inps \<noteq> Panicked"
    using battleLoop_not_Panicked [OF announce_wellFormed [OF a assms]] .
  then show ?thesis using Returned a
    by (simp add: session_def handleBattle_def split: outcome.splits)
next
  case (Blocked g)
  then show ?thesis by (simp add: session_def)
next
  case Panicked
  then show ?thesis
    using handlePokemonSelection_not_Panicked
    by (auto simp: selections_def split: outcome.splits)
qed

subsection \<open>Concrete runs\<close>



lemma arena_active:
  "index (Pokemons (playerWith dexB)) (Active (playerWith dexB)) = Some (combatant ''B0'' 100 50 20 10 0)"
  "index (Pokemons (playerWith dexA)) (Active (playerWith dexA)) = Some (combatant ''A0'' 10 50 20 5 0)"
  by (simp_all add: playerWith_def dexA_def dexB_def index_def)





theorem unknown_action_skipped_witness:
  "\<exists>g'. turn arena (act ''dance'') = Continue g' \<and> Turn g' = 1 \<and>
        Pokemons (Player1 g') = dexA \<and> Pokemons (Player2 g') = dexB \<and>
        sent (Conn (Player1 g')) = [WaitingForOpponent] \<and> sent (Conn (Player2 g')) = [YourTurn]"
proof -
  have r: "received (act ''dance'') = Decoded ''dance''" by (simp add: act_def)
  have "\<exists>g'. turn arena (act ''dance'') = Continue g' \<and>
           Turn g' = 3 - Turn arena \<and> Turn g' \<noteq> Turn arena \<and>
           Player1 g' = send (Player1 arena) (if Turn arena = 1 then YourTurn else WaitingForOpponent) \<and>
           Player2 g' = send (Player2 arena) (if Turn arena = 1 then WaitingForOpponent else YourTurn) \<and>
           Pokemons (Player1 g') = Pokemons (Player1 arena) \<and> Active (Player1 g') = Active (Player1 arena) \<and>
           Pokemons (Player2 g') = Pokemons (Player2 arena) \<and> Active (Player2 g') = Active (Player2 arena)"
    by (rule unknown_action_skipped [OF r]) simp_all
  then show ?thesis
    by (auto simp: arena_def playerWith_def send_def sendJSON_def newConn_def)
qed

lemma arena_announce:
  "\<exists>g1. announce arena 0 = Some g1 \<and> (\<exists>g. turns g1 [act ''switch''] = Some g)"
proof -
  have "(case announce arena 0 of
           None \<Rightarrow> False
         | Some g1 \<Rightarrow> (case turns g1 [act ''switch''] of None \<Rightarrow> False | Some g \<Rightarrow> True))"
    by code_simp
  then show ?thesis by (auto split: option.splits)
qed

theorem malformed_action_aborts_witness:
  "\<exists>g'. handleBattle arena 0 [act ''switch'', garbled, act ''attack''] = Returned g' \<and>
        closed (Conn (Player1 g')) \<and> closed (Conn (Player2 g'))"
proof -
  from arena_announce obtain g1 g where
    a: "announce arena 0 = Some g1" and t: "turns g1 [act ''switch''] = Some g"
    by blast
  have r: "received garbled = UnmarshalError" by (simp add: garbled_def)
  from malformed_action_aborts [OF r a t, of "[act ''attack'']"]
  show ?thesis by auto
qed

lemma arena_attack:
  "\<exists>cur' opp'. attack (playerWith dexB) (playerWith dexA) 1 5 = Continue (cur', opp')"
proof -
  have "(case attack (playerWith dexB) (playerWith dexA) 1 5 of Continue cp \<Rightarrow> True | _ \<Rightarrow> False)"
    by code_simp
  then show ?thesis by (auto split: step.splits)
qed

theorem attack_hp_bounds_witness:
  "\<exists>cur' opp' d'. attack (playerWith dexB) (playerWith dexA) 1 5 = Continue (cur', opp') \<and>
      index (Pokemons opp') (Active (playerWith dexA)) = Some d' \<and> HP d' = 0 \<and>
      0 \<le> calculateDamage (combatant ''B0'' 100 50 20 10 0) (combatant ''A0'' 10 50 20 5 0) False 5"
proof -
  from arena_attack obtain cur' opp' where
    c: "attack (playerWith dexB) (playerWith dexA) 1 5 = Continue (cur', opp')" by blast
  have hp: "0 \<le> HP (combatant ''A0'' 10 50 20 5 0)" "HP (combatant ''A0'' 10 50 20 5 0) \<le> 10"
    by (simp_all add: combatant_def)
  have dm: "calculateDamage (combatant ''B0'' 100 50 20 10 0) (combatant ''A0'' 10 50 20 5 0) False 5 = 45"
    by (simp add: calculateDamage_def combatant_def signed_divide_int_def wrap64_def)
  from attack_hp_bounds [OF arena_active hp refl disjI1 [OF c]]
  show ?thesis using c dm hp by (auto simp: combatant_def)
qed


lemma retried_returns:
  "\<exists>g'. handlePokemonSelection Second dexB (initialGameState dexA dexB) retriedChoices = Returned g'"
proof -
  have "(case handlePokemonSelection Second dexB (initialGameState dexA dexB) retriedChoices of
           Returned g' \<Rightarrow> True | _ \<Rightarrow> False)"
    by code_simp
  then show ?thesis by (auto split: outcome.splits)
qed

theorem roster_selection_witness:
  "\<exists>g'. handlePokemonSelection Second dexB (initialGameState dexA dexB) retriedChoices = Returned g' \<and>
        map Name (Pokemons (Player2 g')) = [''B1'', ''B2'', ''B0''] \<and> Active (Player2 g') = 0"
proof -
  from retried_returns obtain g' where
    r: "handlePokemonSelection Second dexB (initialGameState dexA dexB) retriedChoices = Returned g'"
    by blast
  have p: "picks dexB [] retriedChoices = [1, 2, 0]"
    by (simp add: retriedChoices_def dexB_def len_def)
  from roster_selection [where w = Second and pokedex = dexB
      and g = "initialGameState dexA dexB" and inps = retriedChoices and g' = g']
  have "\<exists>a b c. picks dexB [] retriedChoices = [a, b, c] \<and> distinct [a, b, c] \<and>
               (\<forall>k \<in> {a, b, c}. 0 \<le> k \<and> k < len dexB) \<and>
               Pokemons (getPlayer Second g') = [dexB ! nat a, dexB ! nat b, dexB ! nat c] \<and>
               Active (getPlayer Second g') = Active (getPlayer Second (initialGameState dexA dexB))"
    using r by blast
  then show ?thesis using r p
    by (auto simp: getPlayer_def initialGameState_def dexB_def combatant_def)
qed

end
